theory Spec2Isabelle
  imports Complex_Main "HOL-Library.AList"
begin

section \<open>Python values and dictionaries\<close>

text \<open>
  The scraper of \<^verbatim>\<open>ghana_universities_scraper.py\<close> builds JSON-like values: booleans,
  integers, strings, lists and dictionaries, and \<^verbatim>\<open>datetime\<close> objects in the documents it
  sends to the store. A dictionary is an association list in insertion order with
  distinct keys; \<open>AList.update\<close> is Python's \<^verbatim>\<open>d[k] = v\<close> (an existing key keeps its
  place, a new key goes last).
\<close>

datatype pyval =
    PBool bool
  | PInt int
  | PStr string
  | PDatetime string
  | PList "pyval list"
  | PDict "(string \<times> pyval) list"

type_synonym pydict = "(string \<times> pyval) list"

text \<open>A dictionary display \<^verbatim>\<open>{**a, **b, 'k': v}\<close>: the items are stored from left to right.\<close>

definition dict_of_items :: "(string \<times> pyval) list \<Rightarrow> pydict" where
  "dict_of_items items = fold (\<lambda>kv d. AList.update (fst kv) (snd kv) d) items []"

definition dict_keys :: "pydict \<Rightarrow> string list" where
  "dict_keys d = map fst d"

definition str_list :: "string list \<Rightarrow> pyval" where
  "str_list xs = PList (map PStr xs)"

text \<open>
  \<^verbatim>\<open>list(set(xs))\<close>: the distinct elements of \<open>xs\<close>. Python leaves their order
  unspecified; the model keeps one fixed order, and the theorems about such a list speak
  of its set of elements only.
\<close>

definition list_of_set :: "string list \<Rightarrow> string list" where
  "list_of_set xs = remdups xs"

section \<open>Text\<close>

text \<open>
  A Python \<^verbatim>\<open>str\<close> is a sequence of code points. The model covers text whose code
  points are below 256, one \<open>char\<close> each, so that \<open>length\<close> is Python's
  \<^verbatim>\<open>len\<close>. The character classes are those of Python 3 on that range:
  \<^verbatim>\<open>str.isspace\<close> (also the regular expression \<^verbatim>\<open>\s\<close> and what \<^verbatim>\<open>str.strip()\<close> removes),
  \<^verbatim>\<open>\d\<close> and \<^verbatim>\<open>\w\<close>.
\<close>

definition codepoint :: "char \<Rightarrow> nat" where
  "codepoint c = of_char c"

definition is_space :: "char \<Rightarrow> bool" where
  "is_space c = (let n = codepoint c in (9 \<le> n \<and> n \<le> 13) \<or> (28 \<le> n \<and> n \<le> 32) \<or> n = 133 \<or> n = 160)"

definition is_digit :: "char \<Rightarrow> bool" where
  "is_digit c = (let n = codepoint c in 48 \<le> n \<and> n \<le> 57)"

definition is_upper :: "char \<Rightarrow> bool" where
  "is_upper c = (let n = codepoint c in 65 \<le> n \<and> n \<le> 90)"

definition is_lower :: "char \<Rightarrow> bool" where
  "is_lower c = (let n = codepoint c in 97 \<le> n \<and> n \<le> 122)"

definition is_alnum :: "char \<Rightarrow> bool" where
  "is_alnum c = (is_upper c \<or> is_lower c \<or> is_digit c)"

definition is_word :: "char \<Rightarrow> bool" where
  "is_word c = (let n = codepoint c in
     is_alnum c \<or> n = 95 \<or> n = 170 \<or> n = 178 \<or> n = 179 \<or> n = 181 \<or> n = 185 \<or> n = 186
     \<or> (188 \<le> n \<and> n \<le> 190) \<or> (192 \<le> n \<and> n \<le> 214) \<or> (216 \<le> n \<and> n \<le> 246)
     \<or> (248 \<le> n \<and> n \<le> 255))"

text \<open>
  Case folding for \<^verbatim>\<open>re.I\<close>: the patterns of this program hold ASCII letters only, and
  no other code point below 256 folds to an ASCII letter.
\<close>

definition lower :: "char \<Rightarrow> char" where
  "lower c = (if is_upper c then char_of (codepoint c + 32) else c)"

definition strip :: "string \<Rightarrow> string" where
  "strip s = rev (dropWhile is_space (rev (dropWhile is_space s)))"

section \<open>Regular expressions\<close>

text \<open>
  The fragment of Python's \<^verbatim>\<open>re\<close> that the scraper's patterns use: character classes,
  greedy bounded repetition of a class, concatenation, alternation (left first), a
  greedy optional part, one capturing group and the word boundary \<^verbatim>\<open>\b\<close>.
\<close>

datatype regex =
    Eps
  | Chr "char \<Rightarrow> bool"
  | Rep "char \<Rightarrow> bool" nat "nat option"
  | Cat regex regex
  | Alt regex regex
  | Opt regex
  | Grp regex
  | WordB

text \<open>
  \<open>rep_matches run rest\<close>: the ways a greedy repetition that can take the characters of
  \<open>run\<close> gives some of them back, the longest first.
\<close>

fun rep_matches :: "string \<Rightarrow> string \<Rightarrow> (string \<times> string) list" where
  "rep_matches [] rest = [([], rest)]"
| "rep_matches (c # cs) rest =
     map (\<lambda>x. (c # fst x, snd x)) (rep_matches cs rest) @ [([], c # cs @ rest)]"

definition word_boundary :: "char option \<Rightarrow> string \<Rightarrow> bool" where
  "word_boundary prev s =
     ((case prev of None \<Rightarrow> False | Some c \<Rightarrow> is_word c) \<noteq>
      (case s of [] \<Rightarrow> False | c # cs \<Rightarrow> is_word c))"

definition prev_after :: "char option \<Rightarrow> string \<Rightarrow> char option" where
  "prev_after prev t = (if t = [] then prev else Some (last t))"

text \<open>
  A state of the backtracking matcher: the text matched so far, the text of the
  capturing group, if it took part, the character before the current position, and the
  rest of the subject.
\<close>

datatype mstate = MState (m_text: string) (m_group: "string option") (m_before: "char option") (m_rest: string)

text \<open>
  \<open>rmatches r xs\<close> continues every state of \<open>xs\<close> with \<open>r\<close> and lists the resulting
  states in the order in which a backtracking matcher tries them: the alternatives of
  an earlier state come before those of a later one, a longer repetition before a
  shorter one, the left branch of an alternation before the right one. Python's match
  is the head of the list.
\<close>

fun rmatches :: "regex \<Rightarrow> mstate list \<Rightarrow> mstate list" where
  "rmatches r [] = []"
| "rmatches Eps (x # xs) = x # xs"
| "rmatches (Chr P) (MState m g p s # xs) =
     (case s of [] \<Rightarrow> [] | c # cs \<Rightarrow> if P c then [MState (m @ [c]) g (Some c) cs] else [])
     @ rmatches (Chr P) xs"
| "rmatches (Rep P lo hi) (MState m g p s # xs) =
     (let run = takeWhile P s;
          run = (case hi of None \<Rightarrow> run | Some h \<Rightarrow> take h run)
      in map (\<lambda>y. MState (m @ fst y) g (prev_after p (fst y)) (snd y))
           (filter (\<lambda>y. lo \<le> length (fst y)) (rep_matches run (drop (length run) s))))
     @ rmatches (Rep P lo hi) xs"
| "rmatches (Cat a b) (x # xs) = rmatches b (rmatches a (x # xs))"
| "rmatches (Alt a b) (x # xs) = rmatches a [x] @ rmatches b [x] @ rmatches (Alt a b) xs"
| "rmatches (Opt a) (x # xs) = rmatches a [x] @ x # rmatches (Opt a) xs"
| "rmatches (Grp a) (x # xs) =
     map (\<lambda>y. MState (m_text y) (Some (drop (length (m_text x)) (m_text y))) (m_before y) (m_rest y))
       (rmatches a [x])
     @ rmatches (Grp a) xs"
| "rmatches WordB (MState m g p s # xs) =
     (if word_boundary p s then [MState m g p s] else []) @ rmatches WordB xs"

text \<open>The ways \<open>r\<close> matches at the start of \<open>s\<close>, where \<open>prev\<close> is the character before \<open>s\<close>.\<close>

definition rmatch :: "regex \<Rightarrow> char option \<Rightarrow> string \<Rightarrow> mstate list" where
  "rmatch r prev s = rmatches r [MState [] None prev s]"

text \<open>
  \<^verbatim>\<open>re.findall\<close>: the matches from left to right, none overlapping. When the capturing
  group took part in a match the result holds the text of the group, not of the whole
  match; for a pattern without a group, the whole match. After a match of \<open>n\<close>
  characters the scan goes on behind them; no pattern of this program matches the empty
  string, after which the scan moves on by one character.
\<close>

function findall_from :: "regex \<Rightarrow> char option \<Rightarrow> string \<Rightarrow> string list" where
  "findall_from r prev s =
     (case rmatch r prev s of
        [] \<Rightarrow> (case s of [] \<Rightarrow> [] | c # cs \<Rightarrow> findall_from r (Some c) cs)
      | m # ms \<Rightarrow>
          (case m_group m of None \<Rightarrow> m_text m | Some g \<Rightarrow> g) #
          (case s of
             [] \<Rightarrow> []
           | c # cs \<Rightarrow>
               findall_from r (Some (last (c # take (length (m_text m) - 1) cs)))
                 (drop (length (m_text m) - 1) cs)))"
  by pat_completeness auto
termination
  by (relation "measure (\<lambda>(r, prev, s). length s)") auto

definition findall :: "regex \<Rightarrow> string \<Rightarrow> string list" where
  "findall r s = findall_from r None s"

text \<open>\<^verbatim>\<open>pattern.search(s)\<close> as a truth value: the pattern matches from some position.\<close>

fun search_from :: "regex \<Rightarrow> char option \<Rightarrow> string \<Rightarrow> bool" where
  "search_from r prev [] = (rmatch r prev [] \<noteq> [])"
| "search_from r prev (c # cs) =
     (if rmatch r prev (c # cs) \<noteq> [] then True else search_from r (Some c) cs)"

definition re_search :: "regex \<Rightarrow> string \<Rightarrow> bool" where
  "re_search r s = search_from r None s"

definition lit :: "string \<Rightarrow> regex" where
  "lit s = foldr (\<lambda>c r. Cat (Chr (\<lambda>x. x = c)) r) s Eps"

definition lit_ci :: "string \<Rightarrow> regex" where
  "lit_ci s = foldr (\<lambda>c r. Cat (Chr (\<lambda>x. lower x = lower c)) r) s Eps"

definition cats :: "regex list \<Rightarrow> regex" where
  "cats rs = foldr Cat rs Eps"

fun alts :: "regex list \<Rightarrow> regex" where
  "alts [] = Chr (\<lambda>x. False)"
| "alts [r] = r"
| "alts (r # rs) = Alt r (alts rs)"

subsection \<open>The patterns of the scraper\<close>

text \<open>
  \<^verbatim>\<open>email_pattern = r'\b[A-Za-z0-9._%+-]+@[A-Za-z0-9.-]+\.[A-Z|a-z]{2,}\b'\<close> and
  \<^verbatim>\<open>phone_pattern = r'(\+233|0)[0-9]{9,10}'\<close> of \<^verbatim>\<open>_extract_contact_info\<close>. The bar in
  the last class of the email pattern is a character of the class. The parentheses of
  the phone pattern are a capturing group.
\<close>

definition email_local :: "char \<Rightarrow> bool" where
  "email_local c = (is_alnum c \<or> c \<in> set ''._%+-'')"

definition email_domain :: "char \<Rightarrow> bool" where
  "email_domain c = (is_alnum c \<or> c \<in> set ''.-'')"

definition email_tld :: "char \<Rightarrow> bool" where
  "email_tld c = (is_upper c \<or> is_lower c \<or> c = CHR ''|'')"

definition email_pattern :: regex where
  "email_pattern = cats [WordB, Rep email_local 1 None, lit ''@'', Rep email_domain 1 None,
     lit ''.'', Rep email_tld 2 None, WordB]"

definition phone_pattern :: regex where
  "phone_pattern = cats [Grp (Alt (lit ''+233'') (lit ''0'')), Rep is_digit 9 (Some 10)]"

text \<open>
  The date pattern of \<^verbatim>\<open>_extract_deadlines\<close>, compiled with \<^verbatim>\<open>re.I\<close>:
  \<^verbatim>\<open>\b(?:January|...|December)\s+\d{1,2}(?:st|nd|rd|th)?,?\s+\d{4}\b\<close>.
\<close>

definition months :: "string list" where
  "months = [''January'', ''February'', ''March'', ''April'', ''May'', ''June'', ''July'',
     ''August'', ''September'', ''October'', ''November'', ''December'']"

definition date_pattern :: regex where
  "date_pattern = cats [WordB, alts (map lit_ci months), Rep is_space 1 None,
     Rep is_digit 1 (Some 2), Opt (alts (map lit_ci [''st'', ''nd'', ''rd'', ''th''])),
     Opt (lit '',''), Rep is_space 1 None, Rep is_digit 4 (Some 4), WordB]"

text \<open>
  \<^verbatim>\<open>re.compile(r'requirement|admission|entry', re.I)\<close> and
  \<^verbatim>\<open>re.compile(r'Bachelor|Master|PhD|Diploma', re.I)\<close>.
\<close>

definition requirements_pattern :: regex where
  "requirements_pattern = alts (map lit_ci [''requirement'', ''admission'', ''entry''])"

definition programs_pattern :: regex where
  "programs_pattern = alts (map lit_ci [''Bachelor'', ''Master'', ''PhD'', ''Diploma''])"

section \<open>Parsed documents\<close>

text \<open>
  \<^verbatim>\<open>BeautifulSoup(html, 'html.parser')\<close> is a library call; the model starts from the
  tree it returns: text nodes, and elements with a name, attributes and children. The
  root is an element too (the \<^verbatim>\<open>BeautifulSoup\<close> object).
\<close>

datatype node = NText string | NElem string "(string \<times> string) list" "node list"

fun get_text :: "node \<Rightarrow> string" where
  "get_text (NText s) = s"
| "get_text (NElem n a cs) = concat (map get_text cs)"

text \<open>The descendants of a node in document order, each with its parent.\<close>

fun descendants :: "node \<Rightarrow> (node \<times> node) list" where
  "descendants (NText s) = []"
| "descendants (NElem n a cs) = concat (map (\<lambda>c. (NElem n a cs, c) # descendants c) cs)"

text \<open>
  \<^verbatim>\<open>tag.string\<close>: the text of a tag that has exactly one child, which is a text node or
  a tag that has a \<^verbatim>\<open>string\<close> in turn.
\<close>

fun tag_string :: "node \<Rightarrow> string option" where
  "tag_string (NText s) = Some s"
| "tag_string (NElem n a [c]) = tag_string c"
| "tag_string (NElem n a cs) = None"

fun tag_named :: "string list \<Rightarrow> node \<Rightarrow> bool" where
  "tag_named names (NText s) = False"
| "tag_named names (NElem n a cs) = (n \<in> set names)"

fun attr_get :: "node \<Rightarrow> string \<Rightarrow> string option" where
  "attr_get (NText s) k = None"
| "attr_get (NElem n a cs) k = map_of a k"

text \<open>
  \<^verbatim>\<open>soup.find_all(names, string=pattern)\<close>: the tags with one of the names whose
  \<^verbatim>\<open>string\<close> the pattern is found in, in document order; each comes with its parent.
\<close>

definition string_matches :: "regex \<Rightarrow> node \<Rightarrow> bool" where
  "string_matches r x = (case tag_string x of None \<Rightarrow> False | Some t \<Rightarrow> re_search r t)"

definition find_all :: "string list \<Rightarrow> regex \<Rightarrow> node \<Rightarrow> (node \<times> node) list" where
  "find_all names r soup =
     filter (\<lambda>x. if tag_named names (snd x) then string_matches r (snd x) else False)
       (descendants soup)"

text \<open>\<^verbatim>\<open>soup.find('meta', {'name': 'description'})\<close>: the first such tag, or none.\<close>

definition find_meta_description :: "node \<Rightarrow> node option" where
  "find_meta_description soup =
     (case filter (\<lambda>x. tag_named [''meta''] x \<and> attr_get x ''name'' = Some ''description'')
             (map snd (descendants soup)) of
        [] \<Rightarrow> None
      | x # _ \<Rightarrow> Some x)"

section \<open>Field extraction\<close>

text \<open>
  \<^verbatim>\<open>_extract_contact_info\<close>: the result is \<^verbatim>\<open>None\<close> when neither list is non-empty.
\<close>

definition extract_contact_info :: "node \<Rightarrow> pydict option" where
  "extract_contact_info soup =
     (let text = get_text soup;
          emails = findall email_pattern text;
          contact = (if emails \<noteq> [] then [(''emails'', str_list (list_of_set emails))] else []);
          phones = findall phone_pattern text;
          contact = (if phones \<noteq> [] then AList.update ''phones'' (str_list (list_of_set phones)) contact
                     else contact)
      in if contact \<noteq> [] then Some contact else None)"

text \<open>
  \<^verbatim>\<open>_extract_admission_requirements\<close>: of the first three matching sections, the
  stripped text of the parent, when \<^verbatim>\<open>len(text) > 20 and len(text) < 500\<close>. A tag
  that \<^verbatim>\<open>find_all\<close> returns always has a parent.
\<close>

definition extract_admission_requirements :: "node \<Rightarrow> string list" where
  "extract_admission_requirements soup =
     (let req_sections = find_all [''div'', ''section'', ''p''] requirements_pattern soup
      in filter (\<lambda>text. length text > 20 \<and> length text < 500)
           (map (\<lambda>x. strip (get_text (fst x))) (take 3 req_sections)))"

text \<open>\<^verbatim>\<open>_extract_deadlines\<close>.\<close>

definition extract_deadlines :: "node \<Rightarrow> string list" where
  "extract_deadlines soup = list_of_set (findall date_pattern (get_text soup))"

text \<open>
  \<^verbatim>\<open>_extract_programs\<close>: of the first twenty matching elements, the stripped text,
  when \<^verbatim>\<open>10 < len(text) < 100\<close>.
\<close>

definition extract_programs :: "node \<Rightarrow> string list" where
  "extract_programs soup =
     (let program_elements = find_all [''li'', ''div''] programs_pattern soup
      in filter (\<lambda>text. 10 < length text \<and> length text < 100)
           (map (\<lambda>x. strip (get_text (snd x))) (take 20 program_elements)))"

section \<open>The world and the scraper's state\<close>

text \<open>
  An exception is a value: its class and \<^verbatim>\<open>str(e)\<close>. Only instances of
  \<^verbatim>\<open>Exception\<close> are modelled, which is what every handler of the program catches. A
  computation that may raise returns \<open>exn + 'a\<close>, with \<open>Inl\<close> for the exception.
\<close>

datatype exn = Exn string string

fun exn_str :: "exn \<Rightarrow> string" where
  "exn_str (Exn cls msg) = msg"

text \<open>
  What \<^verbatim>\<open>session.get(url)\<close> yields when it does not raise: the status, and what
  \<^verbatim>\<open>await response.text()\<close> does, which is to raise or to return the text that
  BeautifulSoup parses into a document.
\<close>

record response =
  status :: int
  document :: "exn + node"

text \<open>
  The world decides every effect: what a GET of a URL does, whether the rate-limit sleep
  that follows a source raises, what the clock shows, and whether the write of a file or
  of a document of the store raises.
\<close>

record world =
  http_get :: "string \<Rightarrow> exn + response"
  sleep_raises :: "string \<Rightarrow> exn option"
  now_at :: "nat \<Rightarrow> string"
  file_write_raises :: "string \<Rightarrow> exn option"
  replace_one_raises :: "string \<Rightarrow> string \<Rightarrow> exn option"

datatype event = Get string | Slept real | Wrote string | Replaced string string

text \<open>
  The state: the three dictionaries of the scraper object, the clock, the effects so far
  in order, the files of the data directory and the collections of the store (a document
  under its collection and key).
\<close>

record scraper =
  universities_data :: pydict
  scholarships_data :: pydict
  cut_off_points :: pydict
  clock :: nat
  trace :: "event list"
  files :: "(string \<times> pyval) list"
  store :: "((string \<times> string) \<times> pyval) list"

text \<open>The state after \<^verbatim>\<open>__init__\<close>, before anything is fetched or written.\<close>

definition init :: scraper where
  "init = \<lparr>universities_data = [], scholarships_data = [], cut_off_points = [], clock = 0,
     trace = [], files = [], store = []\<rparr>"

definition rate_limit_delay :: real where
  "rate_limit_delay = 2"

record source_config =
  url :: string
  admissions_url :: string
  programs_selector :: string
  requirements_selector :: string

definition university_sources :: "(string \<times> source_config) list" where
  "university_sources =
     [(''KNUST'', \<lparr>url = ''https://www.knust.edu.gh'',
         admissions_url = ''https://www.knust.edu.gh/admissions'',
         programs_selector = ''.program-list, .course-list'',
         requirements_selector = ''.admission-requirements, .entry-requirements''\<rparr>),
      (''UG'', \<lparr>url = ''https://www.ug.edu.gh'',
         admissions_url = ''https://www.ug.edu.gh/admissions'',
         programs_selector = ''.programs, .courses'',
         requirements_selector = ''.requirements''\<rparr>),
      (''UCC'', \<lparr>url = ''https://www.ucc.edu.gh'',
         admissions_url = ''https://www.ucc.edu.gh/admissions'',
         programs_selector = ''.programme-list'',
         requirements_selector = ''.admission-info''\<rparr>)]"

text \<open>\<^verbatim>\<open>datetime.now()\<close> reads the clock, and the clock moves on.\<close>

definition datetime_now :: "world \<Rightarrow> scraper \<Rightarrow> string \<times> scraper" where
  "datetime_now w s = (now_at w (clock s), s\<lparr>clock := Suc (clock s)\<rparr>)"

definition session_get :: "world \<Rightarrow> string \<Rightarrow> scraper \<Rightarrow> (exn + response) \<times> scraper" where
  "session_get w u s = (http_get w u, s\<lparr>trace := trace s @ [Get u]\<rparr>)"

text \<open>
  \<^verbatim>\<open>await asyncio.sleep(delay)\<close> after the source \<open>uni_code\<close>: a sleep that raises has
  not observed the delay. What it raises is an instance of \<^verbatim>\<open>Exception\<close>, as everything
  in this model; a cancellation of the task is one only before Python 3.8.
\<close>

definition asyncio_sleep :: "world \<Rightarrow> string \<Rightarrow> real \<Rightarrow> scraper \<Rightarrow> (exn + unit) \<times> scraper" where
  "asyncio_sleep w uni_code delay s =
     (case sleep_raises w uni_code of
        Some e \<Rightarrow> (Inl e, s)
      | None \<Rightarrow> (Inr (), s\<lparr>trace := trace s @ [Slept delay]\<rparr>))"

section \<open>Page fetching\<close>

text \<open>
  \<^verbatim>\<open>_fetch_university_main_page\<close>. \<open>main_page_data\<close> is the dictionary it builds from
  a page with status 200, where \<open>t\<close> is \<^verbatim>\<open>datetime.now().isoformat()\<close>: a
  \<^verbatim>\<open>meta\<close> tag is always true, and \<^verbatim>\<open>description.get('content', '')\<close> is the empty
  string for a tag without the attribute. \<open>main_page_try\<close> is the body of the
  \<^verbatim>\<open>try\<close>; the function itself adds the handler \<^verbatim>\<open>except Exception as e\<close>.
\<close>

definition main_page_data :: "string \<Rightarrow> node \<Rightarrow> pydict" where
  "main_page_data t soup =
     (let data = [(''url_accessible'', PBool True), (''last_checked'', PStr t)];
          data = (case find_meta_description soup of
                    None \<Rightarrow> data
                  | Some description \<Rightarrow>
                      AList.update ''description''
                        (PStr (case attr_get description ''content'' of None \<Rightarrow> [] | Some c \<Rightarrow> c))
                        data);
          data = (case extract_contact_info soup of
                    None \<Rightarrow> data
                  | Some contact_info \<Rightarrow> AList.update ''contact'' (PDict contact_info) data)
      in data)"

definition main_page_try :: "world \<Rightarrow> string \<Rightarrow> scraper \<Rightarrow> (exn + pydict) \<times> scraper" where
  "main_page_try w u s =
     (case session_get w u s of
        (Inl e, s1) \<Rightarrow> (Inl e, s1)
      | (Inr r, s1) \<Rightarrow>
          if status r = 200 then
            (case document r of
               Inl e \<Rightarrow> (Inl e, s1)
             | Inr soup \<Rightarrow>
                 (let (t, s2) = datetime_now w s1
                  in (Inr (main_page_data t soup), s2)))
          else (Inr [(''url_accessible'', PBool False), (''status_code'', PInt (status r))], s1))"

definition fetch_university_main_page ::
  "world \<Rightarrow> string \<Rightarrow> scraper \<Rightarrow> (exn + pydict) \<times> scraper" where
  "fetch_university_main_page w u s =
     (case main_page_try w u s of
        (Inl e, s1) \<Rightarrow> (Inr [(''url_accessible'', PBool False), (''error'', PStr (exn_str e))], s1)
      | (Inr data, s1) \<Rightarrow> (Inr data, s1))"

text \<open>
  \<^verbatim>\<open>_fetch_admissions_page\<close>, in the same parts. An empty list is false in Python, so
  a field is stored only when something was extracted.
\<close>

definition admissions_page_data :: "node \<Rightarrow> pydict" where
  "admissions_page_data soup =
     (let data = [(''admissions_url_accessible'', PBool True)];
          requirements = extract_admission_requirements soup;
          data = (if requirements \<noteq> []
                  then AList.update ''admission_requirements'' (str_list requirements) data
                  else data);
          deadlines = extract_deadlines soup;
          data = (if deadlines \<noteq> []
                  then AList.update ''deadlines'' (str_list deadlines) data else data);
          programs = extract_programs soup;
          data = (if programs \<noteq> []
                  then AList.update ''programs'' (str_list programs) data else data)
      in data)"

definition admissions_page_try :: "world \<Rightarrow> string \<Rightarrow> scraper \<Rightarrow> (exn + pydict) \<times> scraper" where
  "admissions_page_try w u s =
     (case session_get w u s of
        (Inl e, s1) \<Rightarrow> (Inl e, s1)
      | (Inr r, s1) \<Rightarrow>
          if status r = 200 then
            (case document r of
               Inl e \<Rightarrow> (Inl e, s1)
             | Inr soup \<Rightarrow> (Inr (admissions_page_data soup), s1))
          else (Inr [(''admissions_url_accessible'', PBool False)], s1))"

definition fetch_admissions_page ::
  "world \<Rightarrow> string \<Rightarrow> scraper \<Rightarrow> (exn + pydict) \<times> scraper" where
  "fetch_admissions_page w u s =
     (case admissions_page_try w u s of
        (Inl e, s1) \<Rightarrow>
          (Inr [(''admissions_url_accessible'', PBool False), (''error'', PStr (exn_str e))], s1)
      | (Inr data, s1) \<Rightarrow> (Inr data, s1))"

section \<open>The orchestrator\<close>

text \<open>\<^verbatim>\<open>_get_fallback_university_data\<close>.\<close>

definition fallback_data :: "(string \<times> pydict) list" where
  "fallback_data =
     [(''KNUST'', [(''full_name'', PStr ''Kwame Nkrumah University of Science and Technology''),
         (''location'', PStr ''Kumasi''), (''established'', PInt 1952), (''type'', PStr ''public''),
         (''status'', PStr ''fallback_data'')]),
      (''UG'', [(''full_name'', PStr ''University of Ghana''),
         (''location'', PStr ''Legon, Accra''), (''established'', PInt 1948), (''type'', PStr ''public''),
         (''status'', PStr ''fallback_data'')]),
      (''UCC'', [(''full_name'', PStr ''University of Cape Coast''),
         (''location'', PStr ''Cape Coast''), (''established'', PInt 1962), (''type'', PStr ''public''),
         (''status'', PStr ''fallback_data'')])]"

definition get_fallback_university_data :: "string \<Rightarrow> pydict" where
  "get_fallback_university_data uni_code =
     (case map_of fallback_data uni_code of
        Some d \<Rightarrow> d
      | None \<Rightarrow> [(''status'', PStr ''no_data_available'')])"

text \<open>
  One turn of the loop of \<^verbatim>\<open>_scrape_universities\<close>. \<open>merge_record\<close> is the
  dictionary display \<^verbatim>\<open>{**main_data, **admissions_data, 'last_updated': ...,
  'source_urls': [...]}\<close>. \<open>scrape_try\<close> is the body of the \<^verbatim>\<open>try\<close>: the two
  fetches, the merged record, the rate-limit sleep. \<open>scrape_one\<close> adds the handler,
  which stores the fallback record.
\<close>

definition merge_record :: "pydict \<Rightarrow> pydict \<Rightarrow> string \<Rightarrow> source_config \<Rightarrow> pydict" where
  "merge_record main_data admissions_data t config =
     dict_of_items (main_data @ admissions_data @
       [(''last_updated'', PStr t),
        (''source_urls'', str_list [url config, admissions_url config])])"

definition scrape_try :: "world \<Rightarrow> string \<Rightarrow> source_config \<Rightarrow> scraper \<Rightarrow> (exn + unit) \<times> scraper" where
  "scrape_try w uni_code config s =
     (case fetch_university_main_page w (url config) s of
        (Inl e, s1) \<Rightarrow> (Inl e, s1)
      | (Inr main_data, s1) \<Rightarrow>
          (case fetch_admissions_page w (admissions_url config) s1 of
             (Inl e, s2) \<Rightarrow> (Inl e, s2)
           | (Inr admissions_data, s2) \<Rightarrow>
               (let (t, s3) = datetime_now w s2;
                    s4 = s3\<lparr>universities_data :=
                           AList.update uni_code
                             (PDict (merge_record main_data admissions_data t config))
                             (universities_data s3)\<rparr>
                in asyncio_sleep w uni_code rate_limit_delay s4)))"

definition scrape_one :: "world \<Rightarrow> string \<times> source_config \<Rightarrow> scraper \<Rightarrow> scraper" where
  "scrape_one w src s =
     (case scrape_try w (fst src) (snd src) s of
        (Inl e, s1) \<Rightarrow>
          s1\<lparr>universities_data :=
               AList.update (fst src) (PDict (get_fallback_university_data (fst src)))
                 (universities_data s1)\<rparr>
      | (Inr u, s1) \<Rightarrow> s1)"

definition scrape_universities :: "world \<Rightarrow> scraper \<Rightarrow> scraper" where
  "scrape_universities w s = fold (scrape_one w) university_sources s"

section \<open>Scholarships and cut-off points\<close>




section \<open>Persistence\<close>










section \<open>The record of a source\<close>

text \<open>
  What one turn of the loop leaves under the code of its source: the merged record, or
  the fallback record when the rate-limit sleep raises. This is not a function of the
  program; the properties below are stated with it.
\<close>

definition stored_record :: "world \<Rightarrow> string \<Rightarrow> source_config \<Rightarrow> scraper \<Rightarrow> pydict" where
  "stored_record w uni_code config s =
     (if sleep_raises w uni_code = None
      then merge_record (projr (fst (fetch_university_main_page w (url config) s)))
             (projr (fst (fetch_admissions_page w (admissions_url config) s)))
             (now_at w (clock (snd (fetch_university_main_page w (url config) s)))) config
      else get_fallback_university_data uni_code)"

section \<open>Example documents and worlds\<close>

text \<open>A page that lists the same programme \<open>n\<close> times.\<close>

definition programme_item :: node where
  "programme_item = NElem ''li'' [] [NText ''Bachelor of Science'']"

definition programme_list_page :: "nat \<Rightarrow> node" where
  "programme_list_page n = NElem ''[document]'' [] [NElem ''ul'' [] (replicate n programme_item)]"

text \<open>
  Worlds. In \<open>quiet_world\<close> every host answers 404 and nothing raises; the others differ
  from it in one effect.
\<close>

definition empty_page :: node where
  "empty_page = NElem ''[document]'' [] []"

definition quiet_world :: world where
  "quiet_world =
     \<lparr>http_get = (\<lambda>u. Inr \<lparr>status = 404, document = Inr empty_page\<rparr>),
      sleep_raises = (\<lambda>c. None),
      now_at = (\<lambda>n. ''2025-01-01T00:00:00''),
      file_write_raises = (\<lambda>p. None),
      replace_one_raises = (\<lambda>c k. None)\<rparr>"

definition unreachable_world :: world where
  "unreachable_world =
     quiet_world\<lparr>http_get := (\<lambda>u. Inl (Exn ''ClientConnectorError'' ''Cannot connect to host''))\<rparr>"


text \<open>A page whose text is the example of the contact extraction, and a world that serves it.\<close>

definition contact_page :: node where
  "contact_page = NElem ''[document]'' [] [NText ''contact: a@b.com or 0244123456'']"


text \<open>
  Two admissions pages: a paragraph of exactly 20 characters, and one of 21, each alone
  in the body of its page.
\<close>

definition closed_page :: node where
  "closed_page =
     NElem ''[document]'' [] [NElem ''body'' [] [NElem ''p'' [] [NText ''Admission is closed.'']]]"

definition reopened_page :: node where
  "reopened_page =
     NElem ''[document]'' [] [NElem ''body'' [] [NElem ''p'' [] [NText ''Admission opens soon.'']]]"

text \<open>
  A home page with a description and contact details, and a world in which the home
  page of KNUST is that page and every other URL answers 404.
\<close>

definition home_page :: node where
  "home_page =
     NElem ''[document]'' []
       [NElem ''html'' []
          [NElem ''head'' [] [NElem ''meta'' [(''name'', ''description''), (''content'', ''A university'')] []],
           NElem ''body'' [] [NText ''contact: a@b.com or 0244123456'']]]"

definition knust_config :: source_config where
  "knust_config =
     \<lparr>url = ''https://www.knust.edu.gh'',
      admissions_url = ''https://www.knust.edu.gh/admissions'',
      programs_selector = ''.program-list, .course-list'',
      requirements_selector = ''.admission-requirements, .entry-requirements''\<rparr>"

definition admissions_missing_world :: world where
  "admissions_missing_world =
     quiet_world\<lparr>http_get := (\<lambda>u. if u = ''https://www.knust.edu.gh''
                                   then Inr \<lparr>status = 200, document = Inr home_page\<rparr>
                                   else Inr \<lparr>status = 404, document = Inr empty_page\<rparr>)\<rparr>"


definition interrupted_world :: world where
  "interrupted_world =
     quiet_world\<lparr>sleep_raises := (\<lambda>c. if c = ''KNUST'' then Some (Exn ''MemoryError'' []) else None)\<rparr>"





section \<open>Properties\<close>

subsection \<open>Lists and documents\<close>

lemma filter_concat_replicate:
  "filter P (concat (replicate n xs)) = concat (replicate n (filter P xs))"
  by (induction n) simp_all

lemma concat_replicate_single: "concat (replicate n [x]) = replicate n x"
  by (induction n) simp_all

lemma descendants_single: "descendants (NElem n a [c]) = (NElem n a [c], c) # descendants c"
  by simp

subsection \<open>Programmes\<close>

lemma programme_item_matches:
  "tag_named [''li'', ''div''] programme_item \<and> string_matches programs_pattern programme_item"
  by code_simp

lemma programme_item_text: "strip (get_text programme_item) = ''Bachelor of Science''"
  by code_simp

lemma descendants_programme_item:
  "descendants programme_item = [(programme_item, NText ''Bachelor of Science'')]"
  by (simp add: programme_item_def)

lemma find_all_programme_list_page:
  "find_all [''li'', ''div''] programs_pattern (programme_list_page n) =
     replicate n (NElem ''ul'' [] (replicate n programme_item), programme_item)"
proof -
  let ?ul = "NElem ''ul'' [] (replicate n programme_item)"
  let ?P = "\<lambda>x. if tag_named [''li'', ''div''] (snd x) then string_matches programs_pattern (snd x)
    else False"
  have d: "descendants ?ul =
      concat (replicate n [(?ul, programme_item), (programme_item, NText ''Bachelor of Science'')])"
    by (simp add: descendants_programme_item map_replicate_const)
  have f: "filter ?P [(?ul, programme_item), (programme_item, NText ''Bachelor of Science'')] =
      [(?ul, programme_item)]"
    using programme_item_matches by simp
  have "filter ?P (descendants ?ul) = replicate n (?ul, programme_item)"
    by (simp only: d filter_concat_replicate f concat_replicate_single)
  then show ?thesis
    by (simp add: find_all_def programme_list_page_def descendants_single
          del: descendants.simps(2) replicate.simps)
qed

lemma extract_programs_programme_list_page:
  "extract_programs (programme_list_page n) = replicate (min 20 n) ''Bachelor of Science''"
  by (simp add: extract_programs_def find_all_programme_list_page programme_item_text
        map_replicate_const min.commute)

text \<open>
  C8. Whatever the document, and however many of its elements match,
  \<^verbatim>\<open>_extract_programs\<close> returns at most 20 entries, and every entry has more than 10 and
  fewer than 100 characters: a text of at most 10 or at least 100 characters is left out.
\<close>

theorem extract_programs_capped:
  "length (extract_programs soup) \<le> 20 \<and>
   (\<forall>t \<in> set (extract_programs soup). 10 < length t \<and> length t < 100)"
proof
  have "length (extract_programs soup) \<le>
      length (take 20 (find_all [''li'', ''div''] programs_pattern soup))"
    unfolding extract_programs_def Let_def
    by (rule le_trans [OF length_filter_le]) simp
  then show "length (extract_programs soup) \<le> 20" by simp
next
  show "\<forall>t \<in> set (extract_programs soup). 10 < length t \<and> length t < 100"
    by (simp add: extract_programs_def Let_def)
qed

text \<open>On a page with 50 matching elements: 20 entries, each of 19 characters.\<close>

theorem extract_programs_capped_witness:
  "length (find_all [''li'', ''div''] programs_pattern (programme_list_page 50)) = 50 \<and>
   length (extract_programs (programme_list_page 50)) \<le> 20 \<and>
   ''Bachelor of Science'' \<in> set (extract_programs (programme_list_page 50)) \<and>
   10 < length ''Bachelor of Science'' \<and> length ''Bachelor of Science'' < 100"
proof -
  have m: "''Bachelor of Science'' \<in> set (extract_programs (programme_list_page 50))"
    by (simp add: extract_programs_programme_list_page)
  have n: "length (find_all [''li'', ''div''] programs_pattern (programme_list_page 50)) = 50"
    by (simp add: find_all_programme_list_page)
  from extract_programs_capped [of "programme_list_page 50"] m n show ?thesis
    by blast
qed

subsection \<open>Dictionaries\<close>

lemma map_of_fold_update:
  "map_of (fold (\<lambda>kv d. AList.update (fst kv) (snd kv) d) items d0) = map_of d0 ++ map_of (rev items)"
proof (induction items arbitrary: d0)
  case Nil
  then show ?case by simp
next
  case (Cons x xs)
  have "map_of (fold (\<lambda>kv d. AList.update (fst kv) (snd kv) d) (x # xs) d0) =
      map_of (AList.update (fst x) (snd x) d0) ++ map_of (rev xs)"
    by (simp add: Cons.IH)
  also have "\<dots> = map_of d0 ++ map_of (rev (x # xs))"
    by (rule ext) (simp add: update_conv' map_add_def split: option.splits)
  finally show ?case .
qed

lemma map_of_dict_of_items: "map_of (dict_of_items items) = map_of (rev items)"
  by (simp add: dict_of_items_def map_of_fold_update)

lemma keys_dict_of_items: "set (dict_keys (dict_of_items items)) = fst ` set items"
proof -
  have "fst ` set (dict_of_items items) = dom (map_of (dict_of_items items))"
    by (simp add: dom_map_of_conv_image_fst)
  also have "\<dots> = fst ` set items"
    by (simp add: map_of_dict_of_items dom_map_of_conv_image_fst)
  finally show ?thesis by (simp add: dict_keys_def)
qed

lemma map_of_rev_distinct: "distinct (map fst xs) \<Longrightarrow> map_of (rev xs) = map_of xs"
proof (induction xs)
  case Nil
  then show ?case by simp
next
  case (Cons x xs)
  then have n: "map_of xs (fst x) = None"
    by (simp add: map_of_eq_None_iff)
  have "map_of (rev (x # xs)) = map_of [x] ++ map_of xs"
    using Cons by (simp add: map_of_append)
  also have "\<dots> = map_of (x # xs)"
    using n by (rule_tac ext) (auto simp: map_add_def split: option.splits)
  finally show ?case .
qed

subsection \<open>Page fetching\<close>

lemma fetch_university_main_page_eq:
  "fetch_university_main_page w u s =
     (case http_get w u of
        Inl e \<Rightarrow>
          (Inr [(''url_accessible'', PBool False), (''error'', PStr (exn_str e))],
           s\<lparr>trace := trace s @ [Get u]\<rparr>)
      | Inr r \<Rightarrow>
          if status r = 200 then
            (case document r of
               Inl e \<Rightarrow>
                 (Inr [(''url_accessible'', PBool False), (''error'', PStr (exn_str e))],
                  s\<lparr>trace := trace s @ [Get u]\<rparr>)
             | Inr soup \<Rightarrow>
                 (Inr (main_page_data (now_at w (clock s)) soup),
                  s\<lparr>trace := trace s @ [Get u], clock := Suc (clock s)\<rparr>))
          else
            (Inr [(''url_accessible'', PBool False), (''status_code'', PInt (status r))],
             s\<lparr>trace := trace s @ [Get u]\<rparr>))"
  by (simp add: fetch_university_main_page_def main_page_try_def session_get_def
        datetime_now_def split: sum.splits)

lemma fetch_admissions_page_eq:
  "fetch_admissions_page w u s =
     (case http_get w u of
        Inl e \<Rightarrow>
          (Inr [(''admissions_url_accessible'', PBool False), (''error'', PStr (exn_str e))],
           s\<lparr>trace := trace s @ [Get u]\<rparr>)
      | Inr r \<Rightarrow>
          if status r = 200 then
            (case document r of
               Inl e \<Rightarrow>
                 (Inr [(''admissions_url_accessible'', PBool False), (''error'', PStr (exn_str e))],
                  s\<lparr>trace := trace s @ [Get u]\<rparr>)
             | Inr soup \<Rightarrow> (Inr (admissions_page_data soup), s\<lparr>trace := trace s @ [Get u]\<rparr>))
          else (Inr [(''admissions_url_accessible'', PBool False)], s\<lparr>trace := trace s @ [Get u]\<rparr>))"
  by (simp add: fetch_admissions_page_def admissions_page_try_def session_get_def
        split: sum.splits)

lemma main_page_data_keys:
  "set (dict_keys (main_page_data t soup)) \<subseteq>
     {''url_accessible'', ''last_checked'', ''description'', ''contact''}"
  by (auto simp: main_page_data_def Let_def dict_keys_def update_keys split: option.splits if_splits)

lemma main_page_data_distinct: "distinct (map fst (main_page_data t soup))"
  by (simp add: main_page_data_def Let_def distinct_update split: option.splits)

lemma admissions_page_data_keys:
  "set (dict_keys (admissions_page_data soup)) \<subseteq>
     {''admissions_url_accessible'', ''admission_requirements'', ''deadlines'', ''programs''}"
  by (auto simp: admissions_page_data_def dict_keys_def update_keys Let_def split: if_splits)


lemma fetch_university_main_page_returns:
  "\<exists>d. fst (fetch_university_main_page w u s) = Inr d"
  by (simp add: fetch_university_main_page_eq split: sum.splits)

lemma fetch_admissions_page_returns:
  "\<exists>d. fst (fetch_admissions_page w u s) = Inr d"
  by (simp add: fetch_admissions_page_eq split: sum.splits)

lemma fetch_university_main_page_state:
  "trace (snd (fetch_university_main_page w u s)) = trace s @ [Get u] \<and>
   universities_data (snd (fetch_university_main_page w u s)) = universities_data s"
  by (simp add: fetch_university_main_page_eq split: sum.splits)

lemma fetch_admissions_page_state:
  "snd (fetch_admissions_page w u s) = s\<lparr>trace := trace s @ [Get u]\<rparr>"
  by (simp add: fetch_admissions_page_eq split: sum.splits)

lemma scrape_try_eq:
  "scrape_try w c cfg s =
     (let r1 = fetch_university_main_page w (url cfg) s;
          r2 = fetch_admissions_page w (admissions_url cfg) (snd r1);
          s2 = snd r2
      in asyncio_sleep w c rate_limit_delay
           (s2\<lparr>clock := Suc (clock s2),
               universities_data :=
                 AList.update c
                   (PDict (merge_record (projr (fst r1)) (projr (fst r2)) (now_at w (clock s2)) cfg))
                   (universities_data s2)\<rparr>))"
proof -
  obtain d1 s1 where r1: "fetch_university_main_page w (url cfg) s = (Inr d1, s1)"
    using fetch_university_main_page_returns [of w "url cfg" s]
    by (cases "fetch_university_main_page w (url cfg) s") auto
  obtain d2 s2 where r2: "fetch_admissions_page w (admissions_url cfg) s1 = (Inr d2, s2)"
    using fetch_admissions_page_returns [of w "admissions_url cfg" s1]
    by (cases "fetch_admissions_page w (admissions_url cfg) s1") auto
  show ?thesis
    by (simp add: scrape_try_def r1 r2 datetime_now_def Let_def)
qed

lemma scrape_try_raises: "fst (scrape_try w c cfg s) = Inl e \<Longrightarrow> sleep_raises w c = Some e"
  by (auto simp: scrape_try_eq Let_def asyncio_sleep_def split: option.splits)

subsection \<open>Fetch outcomes\<close>

lemma main_page_data_lookup:
  "map_of (main_page_data t soup) ''url_accessible'' = Some (PBool True) \<and>
   map_of (main_page_data t soup) ''description'' =
     map_option (\<lambda>m. PStr (case attr_get m ''content'' of None \<Rightarrow> [] | Some c \<Rightarrow> c))
       (find_meta_description soup) \<and>
   map_of (main_page_data t soup) ''contact'' = map_option PDict (extract_contact_info soup)"
  by (simp add: main_page_data_def Let_def update_conv' split: option.splits)


lemma extract_contact_info_contact_page:
  "extract_contact_info contact_page =
     Some [(''emails'', str_list [''a@b.com'']), (''phones'', str_list [''0''])]"
  by code_simp

text \<open>
  C10. Whatever the URL, when the GET raises an exception \<open>e\<close>, or the page has
  status 200 and reading its text raises \<open>e\<close>, neither fetch helper raises: each
  returns the dictionary of its handler, with the accessibility flag false and
  \<^verbatim>\<open>str(e)\<close> under \<^verbatim>\<open>'error'\<close>. So the body of the orchestrator's \<^verbatim>\<open>try\<close> raises
  nothing that a fetch raised: what it raises, the rate-limit sleep raised.
\<close>

theorem fetch_helpers_catch_every_exception:
  assumes "http_get w u = Inl e \<or> (\<exists>r. http_get w u = Inr r \<and> status r = 200 \<and> document r = Inl e)"
  shows "fst (fetch_university_main_page w u s) =
           Inr [(''url_accessible'', PBool False), (''error'', PStr (exn_str e))] \<and>
         fst (fetch_admissions_page w u s) =
           Inr [(''admissions_url_accessible'', PBool False), (''error'', PStr (exn_str e))] \<and>
         (\<forall>c cfg s' e'. fst (scrape_try w c cfg s') = Inl e' \<longrightarrow> sleep_raises w c = Some e')"
  using assms scrape_try_raises
  by (auto simp: fetch_university_main_page_eq fetch_admissions_page_eq)

text \<open>A host that cannot be reached.\<close>

theorem fetch_helpers_catch_every_exception_witness:
  "http_get unreachable_world ''https://www.knust.edu.gh'' =
     Inl (Exn ''ClientConnectorError'' ''Cannot connect to host'') \<and>
   fst (fetch_university_main_page unreachable_world ''https://www.knust.edu.gh'' init) =
     Inr [(''url_accessible'', PBool False), (''error'', PStr ''Cannot connect to host'')] \<and>
   fst (fetch_admissions_page unreachable_world ''https://www.knust.edu.gh'' init) =
     Inr [(''admissions_url_accessible'', PBool False), (''error'', PStr ''Cannot connect to host'')]"
proof -
  have h: "http_get unreachable_world ''https://www.knust.edu.gh'' =
      Inl (Exn ''ClientConnectorError'' ''Cannot connect to host'')"
    by (simp add: unreachable_world_def quiet_world_def)
  from fetch_helpers_catch_every_exception [of unreachable_world "''https://www.knust.edu.gh''"
      "Exn ''ClientConnectorError'' ''Cannot connect to host''" init] h
  show ?thesis by simp
qed




text \<open>
  C3. On the text \<^verbatim>\<open>contact: a@b.com or 0244123456\<close> the emails are as the claim
  says, but the phones are \<^verbatim>\<open>['0']\<close>: \<^verbatim>\<open>re.findall\<close> returns the text of the
  capturing group \<^verbatim>\<open>(\+233|0)\<close> of the phone pattern, not the number.
\<close>

theorem contact_example_phone_prefix_only:
  "get_text contact_page = ''contact: a@b.com or 0244123456'' \<and>
   extract_contact_info contact_page =
     Some [(''emails'', str_list [''a@b.com'']), (''phones'', str_list [''0''])] \<and>
   ''0244123456'' \<notin> set (findall phone_pattern (get_text contact_page))"
proof -
  have "findall phone_pattern (get_text contact_page) = [''0'']"
    by code_simp
  then show ?thesis
    by (simp add: extract_contact_info_contact_page) (simp add: contact_page_def)
qed

subsection \<open>Admission requirements\<close>

lemma find_all_closed_page:
  "find_all [''div'', ''section'', ''p''] requirements_pattern closed_page =
     [(NElem ''body'' [] [NElem ''p'' [] [NText ''Admission is closed.'']],
       NElem ''p'' [] [NText ''Admission is closed.''])]"
  by code_simp

lemma find_all_reopened_page:
  "find_all [''div'', ''section'', ''p''] requirements_pattern reopened_page =
     [(NElem ''body'' [] [NElem ''p'' [] [NText ''Admission opens soon.'']],
       NElem ''p'' [] [NText ''Admission opens soon.''])]"
  by code_simp

lemma strip_closed: "strip ''Admission is closed.'' = ''Admission is closed.''"
  by code_simp

lemma strip_reopened: "strip ''Admission opens soon.'' = ''Admission opens soon.''"
  by code_simp

text \<open>
  C7, as the code has it. Whatever the document, \<^verbatim>\<open>_extract_admission_requirements\<close>
  looks at the first 3 matching elements only, takes the stripped text of the parent of
  each, and keeps exactly the texts with more than 20 and fewer than 500 characters.
\<close>

theorem requirements_strictly_between_20_and_500:
  "length (extract_admission_requirements soup) \<le> 3 \<and>
   (\<forall>t. t \<in> set (extract_admission_requirements soup) \<longleftrightarrow>
      (\<exists>x \<in> set (take 3 (find_all [''div'', ''section'', ''p''] requirements_pattern soup)).
         t = strip (get_text (fst x)) \<and> 20 < length t \<and> length t < 500))"
proof
  have "length (extract_admission_requirements soup) \<le>
      length (take 3 (find_all [''div'', ''section'', ''p''] requirements_pattern soup))"
    unfolding extract_admission_requirements_def Let_def
    by (rule le_trans [OF length_filter_le]) simp
  then show "length (extract_admission_requirements soup) \<le> 3" by simp
next
  show "\<forall>t. t \<in> set (extract_admission_requirements soup) \<longleftrightarrow>
      (\<exists>x \<in> set (take 3 (find_all [''div'', ''section'', ''p''] requirements_pattern soup)).
         t = strip (get_text (fst x)) \<and> 20 < length t \<and> length t < 500)"
    by (auto simp: extract_admission_requirements_def Let_def)
qed

text \<open>A text of 21 characters is kept.\<close>

theorem requirements_strictly_between_20_and_500_witness:
  "length ''Admission opens soon.'' = 21 \<and>
   ''Admission opens soon.'' \<in> set (extract_admission_requirements reopened_page)"
proof -
  have "\<exists>x \<in> set (take 3 (find_all [''div'', ''section'', ''p''] requirements_pattern reopened_page)).
      ''Admission opens soon.'' = strip (get_text (fst x)) \<and>
      20 < length ''Admission opens soon.'' \<and> length ''Admission opens soon.'' < 500"
    by (simp add: find_all_reopened_page strip_reopened)
  with requirements_strictly_between_20_and_500 [of reopened_page] show ?thesis
    by simp
qed

text \<open>
  C7 as stated fails: the page has one matching element, the text of its parent has
  exactly 20 characters, and nothing is returned.
\<close>

theorem requirements_length_20_counterexample:
  "map (\<lambda>x. length (strip (get_text (fst x))))
     (take 3 (find_all [''div'', ''section'', ''p''] requirements_pattern closed_page)) = [20] \<and>
   extract_admission_requirements closed_page = []"
  by (simp add: extract_admission_requirements_def find_all_closed_page strip_closed)

subsection \<open>One source\<close>

lemma fetch_admissions_page_result_any_state:
  "fst (fetch_admissions_page w u s) = fst (fetch_admissions_page w u s')"
  by (simp add: fetch_admissions_page_eq split: sum.splits)

lemma fetch_university_main_page_keys:
  "fst (fetch_university_main_page w u s) = Inr d \<Longrightarrow>
   set (dict_keys d) \<subseteq>
     {''url_accessible'', ''last_checked'', ''description'', ''contact'', ''status_code'', ''error''}"
  using main_page_data_keys
  by (auto simp: fetch_university_main_page_eq dict_keys_def split: sum.splits if_splits)

lemma fetch_admissions_page_keys:
  "fst (fetch_admissions_page w u s) = Inr d \<Longrightarrow>
   set (dict_keys d) \<subseteq>
     {''admissions_url_accessible'', ''admission_requirements'', ''deadlines'', ''programs'', ''error''}"
  using admissions_page_data_keys
  by (auto simp: fetch_admissions_page_eq dict_keys_def split: sum.splits if_splits)



lemma merge_record_keys:
  "set (dict_keys (merge_record m a t cfg)) =
     set (dict_keys m) \<union> set (dict_keys a) \<union> {''last_updated'', ''source_urls''}"
  unfolding merge_record_def keys_dict_of_items
  by (auto simp: dict_keys_def)

lemma fallback_keys:
  "set (dict_keys (get_fallback_university_data c)) \<subseteq>
     {''full_name'', ''location'', ''established'', ''type'', ''status''}"
  by (auto simp: get_fallback_university_data_def fallback_data_def dict_keys_def)

text \<open>Lookups in a merged record: later items win.\<close>

lemma merge_record_lookup:
  "map_of (merge_record m a t cfg) k =
     (if k = ''source_urls'' then Some (str_list [url cfg, admissions_url cfg])
      else if k = ''last_updated'' then Some (PStr t)
      else case map_of (rev a) k of Some v \<Rightarrow> Some v | None \<Rightarrow> map_of (rev m) k)"
  by (simp add: merge_record_def map_of_dict_of_items map_of_append map_add_def)

lemma scrape_one_eq:
  "scrape_one w (c, cfg) s =
     (case sleep_raises w c of
        None \<Rightarrow> snd (scrape_try w c cfg s)
      | Some e \<Rightarrow>
          (snd (scrape_try w c cfg s))
            \<lparr>universities_data :=
               AList.update c (PDict (get_fallback_university_data c))
                 (universities_data (snd (scrape_try w c cfg s)))\<rparr>)"
  by (simp add: scrape_one_def scrape_try_eq Let_def asyncio_sleep_def split: option.splits)

lemma scrape_try_trace:
  "trace (snd (scrape_try w c cfg s)) =
     trace s @ [Get (url cfg), Get (admissions_url cfg)] @
       (if sleep_raises w c = None then [Slept rate_limit_delay] else [])"
  by (simp add: scrape_try_eq Let_def asyncio_sleep_def fetch_admissions_page_state
        fetch_university_main_page_state split: option.splits)

lemma scrape_try_universities:
  "universities_data (snd (scrape_try w c cfg s)) =
     AList.update c
       (PDict (merge_record (projr (fst (fetch_university_main_page w (url cfg) s)))
          (projr (fst (fetch_admissions_page w (admissions_url cfg) s)))
          (now_at w (clock (snd (fetch_university_main_page w (url cfg) s)))) cfg))
       (universities_data s)"
  using fetch_admissions_page_result_any_state
    [of w "admissions_url cfg" "snd (fetch_university_main_page w (url cfg) s)" s]
  by (simp add: scrape_try_eq Let_def asyncio_sleep_def fetch_admissions_page_state
        fetch_university_main_page_state split: option.splits)

subsection \<open>The merged record\<close>

lemma home_page_meta:
  "find_meta_description home_page =
     Some (NElem ''meta'' [(''name'', ''description''), (''content'', ''A university'')] [])"
  by code_simp

lemma home_page_contact:
  "extract_contact_info home_page =
     Some [(''emails'', str_list [''a@b.com'']), (''phones'', str_list [''0''])]"
  by code_simp

lemma main_page_data_no_admissions_field:
  "k \<notin> {''url_accessible'', ''last_checked'', ''description'', ''contact''} \<Longrightarrow>
   map_of (main_page_data t soup) k = None"
  using main_page_data_keys [of t soup]
  by (auto simp: map_of_eq_None_iff dict_keys_def)

text \<open>
  C9. When the main page has status 200 and its text can be read, and the admissions
  page answers with a status other than 200 (every non-2xx status is one), the merged
  record that the turn stores for the source has \<^verbatim>\<open>admissions_url_accessible\<close> false,
  no \<^verbatim>\<open>admission_requirements\<close>, \<^verbatim>\<open>deadlines\<close> or \<^verbatim>\<open>programs\<close>, and the
  description and contact extracted from the main page. It is the record of the source
  when the turn ends, unless the rate-limit sleep raises.
\<close>

theorem admissions_error_keeps_main_page_fields:
  assumes "http_get w (url cfg) = Inr r1" and "status r1 = 200" and "document r1 = Inr soup"
    and "http_get w (admissions_url cfg) = Inr r2" and "status r2 \<noteq> 200"
  shows "\<exists>d. map_of (universities_data (snd (scrape_try w c cfg s))) c = Some (PDict d) \<and>
           map_of d ''admissions_url_accessible'' = Some (PBool False) \<and>
           map_of d ''admission_requirements'' = None \<and>
           map_of d ''deadlines'' = None \<and>
           map_of d ''programs'' = None \<and>
           map_of d ''url_accessible'' = Some (PBool True) \<and>
           map_of d ''description'' =
             map_option (\<lambda>m. PStr (case attr_get m ''content'' of None \<Rightarrow> [] | Some x \<Rightarrow> x))
               (find_meta_description soup) \<and>
           map_of d ''contact'' = map_option PDict (extract_contact_info soup) \<and>
           (sleep_raises w c = None \<longrightarrow> scrape_one w (c, cfg) s = snd (scrape_try w c cfg s))"
proof -
  let ?m = "main_page_data (now_at w (clock s)) soup"
  let ?t = "now_at w (clock (snd (fetch_university_main_page w (url cfg) s)))"
  let ?d = "merge_record ?m [(''admissions_url_accessible'', PBool False)] ?t cfg"
  have m: "fst (fetch_university_main_page w (url cfg) s) = Inr ?m"
    using assms(1-3) by (simp add: fetch_university_main_page_eq)
  have a: "fst (fetch_admissions_page w (admissions_url cfg) s) =
      Inr [(''admissions_url_accessible'', PBool False)]"
    using assms(4,5) by (simp add: fetch_admissions_page_eq)
  have r: "map_of (rev ?m) = map_of ?m"
    by (rule map_of_rev_distinct) (rule main_page_data_distinct)
  have f1: "map_of (universities_data (snd (scrape_try w c cfg s))) c = Some (PDict ?d)"
    by (simp add: scrape_try_universities m a update_conv')
  have f2: "map_of ?d ''admissions_url_accessible'' = Some (PBool False)"
    by (simp add: merge_record_lookup)
  have f3: "map_of ?d ''admission_requirements'' = None"
    by (simp add: merge_record_lookup r main_page_data_no_admissions_field)
  have f4: "map_of ?d ''deadlines'' = None"
    by (simp add: merge_record_lookup r main_page_data_no_admissions_field)
  have f5: "map_of ?d ''programs'' = None"
    by (simp add: merge_record_lookup r main_page_data_no_admissions_field)
  have f6: "map_of ?d ''url_accessible'' = Some (PBool True)"
    using main_page_data_lookup [of "now_at w (clock s)" soup]
    by (simp add: merge_record_lookup r)
  have f7: "map_of ?d ''description'' =
       map_option (\<lambda>m. PStr (case attr_get m ''content'' of None \<Rightarrow> [] | Some x \<Rightarrow> x))
         (find_meta_description soup)"
    using main_page_data_lookup [of "now_at w (clock s)" soup]
    by (simp add: merge_record_lookup r)
  have f8: "map_of ?d ''contact'' = map_option PDict (extract_contact_info soup)"
    using main_page_data_lookup [of "now_at w (clock s)" soup]
    by (simp add: merge_record_lookup r)
  have f9: "sleep_raises w c = None \<longrightarrow> scrape_one w (c, cfg) s = snd (scrape_try w c cfg s)"
    by (simp add: scrape_one_eq)
  show ?thesis
    by (rule exI [of _ ?d]) (intro conjI f1 f2 f3 f4 f5 f6 f7 f8 f9)
qed


text \<open>KNUST, with its home page served and its admissions page missing.\<close>

theorem admissions_error_keeps_main_page_fields_witness:
  "\<exists>d. map_of (universities_data (snd (scrape_try admissions_missing_world ''KNUST'' knust_config init)))
          ''KNUST'' = Some (PDict d) \<and>
       map_of d ''admissions_url_accessible'' = Some (PBool False) \<and>
       map_of d ''admission_requirements'' = None \<and>
       map_of d ''deadlines'' = None \<and>
       map_of d ''programs'' = None \<and>
       map_of d ''url_accessible'' = Some (PBool True) \<and>
       map_of d ''description'' = Some (PStr ''A university'') \<and>
       map_of d ''contact'' =
         Some (PDict [(''emails'', str_list [''a@b.com'']), (''phones'', str_list [''0''])])"
proof -
  have h1: "http_get admissions_missing_world (url knust_config) =
      Inr \<lparr>status = 200, document = Inr home_page\<rparr>"
    by (simp add: admissions_missing_world_def quiet_world_def knust_config_def)
  have h2: "http_get admissions_missing_world (admissions_url knust_config) =
      Inr \<lparr>status = 404, document = Inr empty_page\<rparr>"
    by (simp add: admissions_missing_world_def quiet_world_def knust_config_def)
  have "status \<lparr>status = 200, document = Inr home_page\<rparr> = 200"
    and "document \<lparr>status = 200, document = Inr home_page\<rparr> = Inr home_page"
    and "status \<lparr>status = 404, document = Inr empty_page\<rparr> \<noteq> 200"
    by simp_all
  from admissions_error_keeps_main_page_fields [OF h1 this(1,2) h2 this(3), of "''KNUST''" init]
  obtain d where d:
    "map_of (universities_data (snd (scrape_try admissions_missing_world ''KNUST'' knust_config init)))
       ''KNUST'' = Some (PDict d)"
    "map_of d ''admissions_url_accessible'' = Some (PBool False)"
    "map_of d ''admission_requirements'' = None"
    "map_of d ''deadlines'' = None"
    "map_of d ''programs'' = None"
    "map_of d ''url_accessible'' = Some (PBool True)"
    "map_of d ''description'' =
       map_option (\<lambda>m. PStr (case attr_get m ''content'' of None \<Rightarrow> [] | Some x \<Rightarrow> x))
         (find_meta_description home_page)"
    "map_of d ''contact'' = map_option PDict (extract_contact_info home_page)"
    by (elim exE conjE) (rule that, assumption+)
  have e1: "map_of d ''description'' = Some (PStr ''A university'')"
    using d(7) by (simp add: home_page_meta)
  have e2: "map_of d ''contact'' =
      Some (PDict [(''emails'', str_list [''a@b.com'']), (''phones'', str_list [''0''])])"
    using d(8) by (simp add: home_page_contact)
  show ?thesis
    by (rule exI [of _ d]) (intro conjI d(1-6) e1 e2)
qed

subsection \<open>The loop over the sources\<close>

lemma update_update_same: "AList.update k v (AList.update k v' al) = AList.update k v al"
  by (induction al) auto

lemma scrape_one_universities:
  "universities_data (scrape_one w (c, cfg) s) =
     AList.update c (PDict (stored_record w c cfg s)) (universities_data s)"
  by (simp add: scrape_one_eq scrape_try_universities stored_record_def update_update_same
        split: option.splits)

lemma scrape_one_trace:
  "trace (scrape_one w (c, cfg) s) =
     trace s @ [Get (url cfg), Get (admissions_url cfg)] @
       (if sleep_raises w c = None then [Slept rate_limit_delay] else [])"
  by (simp add: scrape_one_eq scrape_try_trace split: option.splits)

lemma stored_record_cases:
  "(sleep_raises w c \<noteq> None \<and> stored_record w c cfg s = get_fallback_university_data c) \<or>
   (sleep_raises w c = None \<and>
    set (dict_keys (stored_record w c cfg s)) \<subseteq>
      {''url_accessible'', ''last_checked'', ''description'', ''contact'', ''status_code'', ''error'',
       ''admissions_url_accessible'', ''admission_requirements'', ''deadlines'', ''programs'',
       ''last_updated'', ''source_urls''} \<and>
    ''source_urls'' \<in> set (dict_keys (stored_record w c cfg s)))"
proof (cases "sleep_raises w c")
  case None
  let ?S = "{''url_accessible'', ''last_checked'', ''description'', ''contact'', ''status_code'',
    ''error'', ''admissions_url_accessible'', ''admission_requirements'', ''deadlines'',
    ''programs'', ''last_updated'', ''source_urls''}"
  obtain m where m: "fst (fetch_university_main_page w (url cfg) s) = Inr m"
    using fetch_university_main_page_returns by blast
  obtain a where a: "fst (fetch_admissions_page w (admissions_url cfg) s) = Inr a"
    using fetch_admissions_page_returns by blast
  have r: "stored_record w c cfg s =
      merge_record m a (now_at w (clock (snd (fetch_university_main_page w (url cfg) s)))) cfg"
    by (simp add: stored_record_def None m a)
  have km: "set (dict_keys m) \<subseteq> ?S"
    by (rule subset_trans [OF fetch_university_main_page_keys [OF m]]) simp
  have ka: "set (dict_keys a) \<subseteq> ?S"
    by (rule subset_trans [OF fetch_admissions_page_keys [OF a]]) simp
  have kt: "{''last_updated'', ''source_urls''} \<subseteq> ?S"
    by simp
  have "set (dict_keys (stored_record w c cfg s)) \<subseteq> ?S"
    unfolding r merge_record_keys using km ka kt by (intro Un_least)
  moreover have "''source_urls'' \<in> set (dict_keys (stored_record w c cfg s))"
    unfolding r merge_record_keys by simp
  ultimately show ?thesis using None by (intro disjI2 conjI)
next
  case (Some e)
  then show ?thesis by (simp add: stored_record_def)
qed

lemma scrape_universities_unfold:
  "scrape_universities w s =
     scrape_one w (''UCC'', snd (university_sources ! 2))
       (scrape_one w (''UG'', snd (university_sources ! 1))
         (scrape_one w (''KNUST'', snd (university_sources ! 0)) s))"
  by (simp add: scrape_universities_def university_sources_def)

lemma fallback_status:
  "c \<in> set (map fst university_sources) \<Longrightarrow>
   map_of (get_fallback_university_data c) ''status'' = Some (PStr ''fallback_data'')"
  by (auto simp: university_sources_def get_fallback_university_data_def fallback_data_def)

lemma fallback_has_no_source_urls:
  "''source_urls'' \<notin> set (dict_keys (get_fallback_university_data c))"
  using fallback_keys [of c] by auto

lemma scraped_keys_disjoint:
  assumes "set (dict_keys d) \<subseteq>
      {''url_accessible'', ''last_checked'', ''description'', ''contact'', ''status_code'', ''error'',
       ''admissions_url_accessible'', ''admission_requirements'', ''deadlines'', ''programs'',
       ''last_updated'', ''source_urls''}"
  shows "set (dict_keys d) \<inter> set (dict_keys (get_fallback_university_data c)) = {} \<and>
         map_of d ''status'' = None"
proof -
  let ?S = "{''url_accessible'', ''last_checked'', ''description'', ''contact'', ''status_code'',
    ''error'', ''admissions_url_accessible'', ''admission_requirements'', ''deadlines'',
    ''programs'', ''last_updated'', ''source_urls''}"
  have n: "k \<notin> set (dict_keys d)" if "k \<notin> ?S" for k
    using assms that by (rule contra_subsetD)
  have f: "k \<notin> set (dict_keys d)" if k: "k \<in> set (dict_keys (get_fallback_university_data c))" for k
  proof -
    have "k \<in> {''full_name'', ''location'', ''established'', ''type'', ''status''}"
      using fallback_keys k by (rule subsetD)
    then have "k = ''full_name'' \<or> k = ''location'' \<or> k = ''established'' \<or> k = ''type'' \<or>
        k = ''status''"
      by simp
    then have "k \<notin> ?S"
      by (elim disjE) simp_all
    then show ?thesis by (rule n)
  qed
  have "''status'' \<notin> ?S" by simp
  then have "''status'' \<notin> set (dict_keys d)" by (rule n)
  then have s: "map_of d ''status'' = None"
    by (simp add: map_of_eq_None_iff dict_keys_def)
  have "set (dict_keys d) \<inter> set (dict_keys (get_fallback_university_data c)) = {}"
    using f by (simp add: disjoint_iff) blast
  with s show ?thesis by (rule_tac conjI)
qed

lemma stored_record_fallback_iff:
  "(stored_record w c cfg s = get_fallback_university_data c) = (sleep_raises w c \<noteq> None)"
  using stored_record_cases [of w c cfg s] fallback_has_no_source_urls [of c]
  by (cases "sleep_raises w c") auto

lemma scrape_universities_data:
  "universities_data (scrape_universities w init) =
     [(''KNUST'', PDict (stored_record w ''KNUST'' (snd (university_sources ! 0)) init)),
      (''UG'', PDict (stored_record w ''UG'' (snd (university_sources ! 1))
         (scrape_one w (''KNUST'', snd (university_sources ! 0)) init))),
      (''UCC'', PDict (stored_record w ''UCC'' (snd (university_sources ! 2))
         (scrape_one w (''UG'', snd (university_sources ! 1))
           (scrape_one w (''KNUST'', snd (university_sources ! 0)) init))))]"
  by (simp add: scrape_universities_unfold scrape_one_universities init_def)

lemma fold_scrape_one_trace:
  "trace (fold (scrape_one w) srcs s) =
     trace s @ concat (map (\<lambda>src. [Get (url (snd src)), Get (admissions_url (snd src))] @
       (if sleep_raises w (fst src) = None then [Slept rate_limit_delay] else [])) srcs)"
proof (induction srcs arbitrary: s)
  case Nil
  then show ?case by simp
next
  case (Cons src srcs)
  have "trace (scrape_one w src s) =
      trace s @ [Get (url (snd src)), Get (admissions_url (snd src))] @
        (if sleep_raises w (fst src) = None then [Slept rate_limit_delay] else [])"
    using scrape_one_trace [of w "fst src" "snd src" s] by simp
  then show ?case by (simp add: Cons.IH)
qed

subsection \<open>Records and delays of a run\<close>

lemma stored_record_fallback_or_scraped:
  assumes "c \<in> set (map fst university_sources)"
  shows "(stored_record w c cfg s = get_fallback_university_data c \<and>
          map_of (stored_record w c cfg s) ''status'' = Some (PStr ''fallback_data'') \<and>
          sleep_raises w c \<noteq> None) \<or>
         (set (dict_keys (stored_record w c cfg s)) \<inter>
            set (dict_keys (get_fallback_university_data c)) = {} \<and>
          ''source_urls'' \<in> set (dict_keys (stored_record w c cfg s)) \<and>
          map_of (stored_record w c cfg s) ''status'' = None \<and>
          sleep_raises w c = None)"
proof (cases "sleep_raises w c")
  case None
  from stored_record_cases [of w c cfg s] None
  have k: "set (dict_keys (stored_record w c cfg s)) \<subseteq>
      {''url_accessible'', ''last_checked'', ''description'', ''contact'', ''status_code'', ''error'',
       ''admissions_url_accessible'', ''admission_requirements'', ''deadlines'', ''programs'',
       ''last_updated'', ''source_urls''}"
    and u: "''source_urls'' \<in> set (dict_keys (stored_record w c cfg s))"
    by simp_all
  from scraped_keys_disjoint [OF k, of c] u None show ?thesis
    by simp
next
  case (Some e)
  then have "stored_record w c cfg s = get_fallback_university_data c"
    by (simp add: stored_record_def)
  with Some fallback_status [OF assms] show ?thesis
    by simp
qed

text \<open>
  C5. After the loop over the sources, started on a fresh scraper, the keys of
  \<^verbatim>\<open>universities_data\<close> are the codes of the registry, each once. The record of a
  code is either the fallback record, with the status tag \<^verbatim>\<open>fallback_data\<close> (when
  the rate-limit sleep of the source raised), or a merged record, which shares no key
  with the fallback record, has no \<^verbatim>\<open>status\<close> and names its source URLs.
\<close>

theorem one_record_per_source:
  "map fst (universities_data (scrape_universities w init)) = map fst university_sources \<and>
   (\<forall>c \<in> set (map fst university_sources).
      \<exists>d. map_of (universities_data (scrape_universities w init)) c = Some (PDict d) \<and>
          ((d = get_fallback_university_data c \<and>
            map_of d ''status'' = Some (PStr ''fallback_data'') \<and>
            sleep_raises w c \<noteq> None) \<or>
           (set (dict_keys d) \<inter> set (dict_keys (get_fallback_university_data c)) = {} \<and>
            ''source_urls'' \<in> set (dict_keys d) \<and>
            map_of d ''status'' = None \<and>
            sleep_raises w c = None)))"
proof
  show "map fst (universities_data (scrape_universities w init)) = map fst university_sources"
    by (simp add: scrape_universities_data) (simp add: university_sources_def)
next
  show "\<forall>c \<in> set (map fst university_sources).
      \<exists>d. map_of (universities_data (scrape_universities w init)) c = Some (PDict d) \<and>
          ((d = get_fallback_university_data c \<and>
            map_of d ''status'' = Some (PStr ''fallback_data'') \<and>
            sleep_raises w c \<noteq> None) \<or>
           (set (dict_keys d) \<inter> set (dict_keys (get_fallback_university_data c)) = {} \<and>
            ''source_urls'' \<in> set (dict_keys d) \<and>
            map_of d ''status'' = None \<and>
            sleep_raises w c = None))"
  proof
    fix c
    assume c: "c \<in> set (map fst university_sources)"
    then have "c = ''KNUST'' \<or> c = ''UG'' \<or> c = ''UCC''"
      by (simp add: university_sources_def)
    then obtain cfg s where
      "map_of (universities_data (scrape_universities w init)) c = Some (PDict (stored_record w c cfg s))"
      by (elim disjE) (simp_all add: scrape_universities_data)
    with stored_record_fallback_or_scraped [OF c, of w cfg s]
    show "\<exists>d. map_of (universities_data (scrape_universities w init)) c = Some (PDict d) \<and>
          ((d = get_fallback_university_data c \<and>
            map_of d ''status'' = Some (PStr ''fallback_data'') \<and>
            sleep_raises w c \<noteq> None) \<or>
           (set (dict_keys d) \<inter> set (dict_keys (get_fallback_university_data c)) = {} \<and>
            ''source_urls'' \<in> set (dict_keys d) \<and>
            map_of d ''status'' = None \<and>
            sleep_raises w c = None))"
      by (intro exI [of _ "stored_record w c cfg s"] conjI)
  qed
qed


text \<open>
  With the sleep after KNUST raising: KNUST ends with its fallback record, UG with a
  merged one.
\<close>

theorem one_record_per_source_witness:
  "''KNUST'' \<in> set (map fst university_sources) \<and>
   ''UG'' \<in> set (map fst university_sources) \<and>
   map fst (universities_data (scrape_universities interrupted_world init)) = [''KNUST'', ''UG'', ''UCC''] \<and>
   map_of (universities_data (scrape_universities interrupted_world init)) ''KNUST'' =
     Some (PDict (get_fallback_university_data ''KNUST'')) \<and>
   (\<exists>d. map_of (universities_data (scrape_universities interrupted_world init)) ''UG'' = Some (PDict d) \<and>
        ''source_urls'' \<in> set (dict_keys d) \<and> map_of d ''status'' = None)"
proof -
  note t = one_record_per_source [of interrupted_world]
  have k: "''KNUST'' \<in> set (map fst university_sources)"
    and u: "''UG'' \<in> set (map fst university_sources)"
    by (simp_all add: university_sources_def)
  have sk: "sleep_raises interrupted_world ''KNUST'' \<noteq> None"
    and su: "sleep_raises interrupted_world ''UG'' = None"
    by (simp_all add: interrupted_world_def quiet_world_def)
  have m: "map fst (universities_data (scrape_universities interrupted_world init)) =
      [''KNUST'', ''UG'', ''UCC'']"
    using conjunct1 [OF t] by (simp add: university_sources_def)
  from bspec [OF conjunct2 [OF t] k] sk
  have f: "map_of (universities_data (scrape_universities interrupted_world init)) ''KNUST'' =
      Some (PDict (get_fallback_university_data ''KNUST''))"
    by (elim exE conjE disjE) simp_all
  from bspec [OF conjunct2 [OF t] u] su
  have g: "\<exists>d. map_of (universities_data (scrape_universities interrupted_world init)) ''UG'' =
        Some (PDict d) \<and> ''source_urls'' \<in> set (dict_keys d) \<and> map_of d ''status'' = None"
    by (elim exE conjE disjE) (simp_all del: map_of_eq_Some_iff)
  from k u m f g show ?thesis by (intro conjI)
qed

text \<open>
  The effects of the loop are, source after source, the two requests and then the delay
  of \<^verbatim>\<open>rate_limit_delay\<close> seconds, which is missing exactly for the sources whose
  sleep raised; and a turn leaves the fallback record exactly when its sleep raised. So
  a delay follows every source that ends with a merged record, whatever its two fetches
  returned or raised.
\<close>

theorem delay_follows_completed_turn:
  "trace (scrape_universities w s) =
     trace s @ concat (map (\<lambda>src. [Get (url (snd src)), Get (admissions_url (snd src))] @
       (if sleep_raises w (fst src) = None then [Slept rate_limit_delay] else [])) university_sources) \<and>
   (map_of (universities_data (scrape_one w (c, cfg) s)) c =
      Some (PDict (get_fallback_university_data c))) = (sleep_raises w c \<noteq> None)"
proof
  show "trace (scrape_universities w s) =
     trace s @ concat (map (\<lambda>src. [Get (url (snd src)), Get (admissions_url (snd src))] @
       (if sleep_raises w (fst src) = None then [Slept rate_limit_delay] else [])) university_sources)"
    unfolding scrape_universities_def by (rule fold_scrape_one_trace)
next
  show "(map_of (universities_data (scrape_one w (c, cfg) s)) c =
      Some (PDict (get_fallback_university_data c))) = (sleep_raises w c \<noteq> None)"
    by (simp add: scrape_one_universities update_conv' stored_record_fallback_iff)
qed

text \<open>
  With every host answering 404 and no sleep raising: a delay of 2 seconds after each
  source.
\<close>

theorem delay_follows_completed_turn_witness:
  "trace (scrape_universities quiet_world init) =
     [Get ''https://www.knust.edu.gh'', Get ''https://www.knust.edu.gh/admissions'', Slept 2,
      Get ''https://www.ug.edu.gh'', Get ''https://www.ug.edu.gh/admissions'', Slept 2,
      Get ''https://www.ucc.edu.gh'', Get ''https://www.ucc.edu.gh/admissions'', Slept 2]"
  using delay_follows_completed_turn [of quiet_world init]
  by (simp add: university_sources_def quiet_world_def init_def rate_limit_delay_def)

text \<open>
  C6. The claim asks for the delay after a source that ends in fallback substitution
  too. The handler of the loop stores the fallback record and has no sleep of its own:
  in a run in which the sleep after KNUST raises, KNUST ends with its fallback record,
  and the requests of UG follow those of KNUST with no delay between them.
\<close>

theorem fallback_turn_has_no_delay:
  "map_of (universities_data (scrape_universities interrupted_world init)) ''KNUST'' =
     Some (PDict (get_fallback_university_data ''KNUST'')) \<and>
   trace (scrape_universities interrupted_world init) =
     [Get ''https://www.knust.edu.gh'', Get ''https://www.knust.edu.gh/admissions'',
      Get ''https://www.ug.edu.gh'', Get ''https://www.ug.edu.gh/admissions'', Slept 2,
      Get ''https://www.ucc.edu.gh'', Get ''https://www.ucc.edu.gh/admissions'', Slept 2]"
proof
  have "sleep_raises interrupted_world ''KNUST'' \<noteq> None"
    by (simp add: interrupted_world_def quiet_world_def)
  then have "stored_record interrupted_world ''KNUST'' cfg s = get_fallback_university_data ''KNUST''"
    for cfg s
    by (simp add: stored_record_fallback_iff)
  then show "map_of (universities_data (scrape_universities interrupted_world init)) ''KNUST'' =
     Some (PDict (get_fallback_university_data ''KNUST''))"
    by (simp add: scrape_universities_data)
next
  show "trace (scrape_universities interrupted_world init) =
     [Get ''https://www.knust.edu.gh'', Get ''https://www.knust.edu.gh/admissions'',
      Get ''https://www.ug.edu.gh'', Get ''https://www.ug.edu.gh/admissions'', Slept 2,
      Get ''https://www.ucc.edu.gh'', Get ''https://www.ucc.edu.gh/admissions'', Slept 2]"
    unfolding scrape_universities_def
    by (simp add: fold_scrape_one_trace)
       (simp add: university_sources_def interrupted_world_def quiet_world_def init_def
          rate_limit_delay_def)
qed

subsection \<open>A fetch that raises\<close>








subsection \<open>Persistence failures\<close>












end
